theory Spec2Isabelle
  imports Complex_Main "HOL-Library.Stream"
begin

section \<open>Titanic game: world generation, ship physics, encounters, session control\<close>

text \<open>
  The repository holds two variants of one script. The extended variant (coal, start port,
  goal, win state) and the simple variant (no coal, no goal) share the iceberg generator
  and differ in \<open>updateShip\<close>, \<open>checkCollisions\<close>, \<open>restartGame\<close> and \<open>gameLoop\<close>.
  Functions of the simple variant carry the suffix \<open>_simple\<close>; they work on the same state
  record and neither read nor write the fields only the extended variant has.

  JavaScript numbers are modelled as mathematical reals (\<open>Math.sin\<close>, \<open>Math.cos\<close>,
  \<open>Math.sqrt\<close>, \<open>Math.floor\<close> as \<open>sin\<close>, \<open>cos\<close>, \<open>sqrt\<close>, \<open>floor\<close>); integer-valued
  numbers (chunk indices, seeds, counts) as \<open>int\<close> or \<open>nat\<close>. The module-level variables
  form one state record that every function takes and returns.
\<close>

subsection \<open>Configuration constants\<close>

definition maxCoal :: real where "maxCoal = 100"
definition depletionRate :: real where "depletionRate = 0.01"

definition maxSpeed :: real where "maxSpeed = 3.5"
definition maxReverseSpeed :: real where "maxReverseSpeed = 0.8"
definition accelerationPower :: real where "accelerationPower = 0.03"
definition accelerationDecay :: real where "accelerationDecay = 0.08"
definition friction :: real where "friction = 0.02"
definition maxRudderAngle :: real where "maxRudderAngle = pi / 6"
definition rudderSpeed :: real where "rudderSpeed = 0.03"
definition turnRate :: real where "turnRate = 0.02"
definition pivotPoint :: real where "pivotPoint = 0.7"

definition shipLength :: real where "shipLength = 200"
definition shipWidth :: real where "shipWidth = 60"

definition density :: real where "density = 10"
definition minSize :: real where "minSize = 30"
definition maxSize :: real where "maxSize = 80"
definition minPoints :: real where "minPoints = 6"
definition maxPoints :: real where "maxPoints = 12"
definition icebergGridSize :: real where "icebergGridSize = 500"
definition startSafeRadius :: real where "startSafeRadius = 300"

definition worldWidth :: real where "worldWidth = 10000"
definition worldHeight :: real where "worldHeight = 10000"
definition goalRadius :: real where "goalRadius = 250"
definition edgeOffset :: real where "edgeOffset = 300"

lemmas shipConfig_defs =
  maxSpeed_def maxReverseSpeed_def accelerationPower_def accelerationDecay_def
  friction_def rudderSpeed_def turnRate_def pivotPoint_def

subsection \<open>State\<close>

record keys =
  ArrowUp :: bool
  ArrowDown :: bool
  ArrowLeft :: bool
  ArrowRight :: bool

record iceberg =
  berg_x :: real
  berg_y :: real
  berg_size :: real
  berg_pointCount :: int
  berg_seed :: int

record place =
  place_x :: real
  place_y :: real
  generated :: bool

record button =
  button_x :: real
  button_y :: real
  button_width :: real
  button_height :: real

record game =
  gameRunning :: bool
  gameOver :: bool
  gameWon :: bool
  animationTime :: real
  totalDistance :: real
  gameStartTime :: real
  winTime :: real
  lastTime :: real
  currentCoal :: real
  keys :: keys
  goal :: place
  startPort :: place
  camera_x :: real
  camera_y :: real
  icebergs :: "iceberg list"
  loadedIcebergChunks :: "string set"
  ship_screenX :: real
  ship_screenY :: real
  ship_rotation :: real
  ship_speed :: real
  ship_acceleration :: real
  ship_rudderAngle :: real
  canvas_width :: nat
  canvas_height :: nat
  gameOverButton :: "button option"

definition noKeys :: keys where
  "noKeys = \<lparr>ArrowUp = False, ArrowDown = False, ArrowLeft = False, ArrowRight = False\<rparr>"

text \<open>The module-level initialisers of the extended variant, for a window of the given
  inner size and the value \<open>performance.now()\<close> returns while the script loads.\<close>

definition initialGame :: "nat \<Rightarrow> nat \<Rightarrow> real \<Rightarrow> game" where
  "initialGame innerWidth innerHeight now =
     \<lparr>gameRunning = True, gameOver = False, gameWon = False, animationTime = 0,
      totalDistance = 0, gameStartTime = 0, winTime = 0, lastTime = now,
      currentCoal = maxCoal, keys = noKeys,
      goal = \<lparr>place_x = 0, place_y = 0, generated = False\<rparr>,
      startPort = \<lparr>place_x = 0, place_y = 0, generated = False\<rparr>,
      camera_x = worldWidth / 2, camera_y = worldHeight / 2,
      icebergs = [], loadedIcebergChunks = {},
      ship_screenX = 0, ship_screenY = 0, ship_rotation = - pi / 2, ship_speed = 0,
      ship_acceleration = 0, ship_rudderAngle = 0,
      canvas_width = innerWidth, canvas_height = innerHeight, gameOverButton = None\<rparr>"

text \<open>The simple variant starts with the camera at the world origin.\<close>

definition initialGame_simple :: "nat \<Rightarrow> nat \<Rightarrow> real \<Rightarrow> game" where
  "initialGame_simple innerWidth innerHeight now =
     (initialGame innerWidth innerHeight now)\<lparr>camera_x := 0, camera_y := 0\<rparr>"

text \<open>The key listeners overwrite the held-key flags between two frames.\<close>

definition holdKeys :: "keys \<Rightarrow> game \<Rightarrow> game" where
  "holdKeys k s = s\<lparr>keys := k\<rparr>"

subsection \<open>Ship physics: \<open>updateShip\<close>\<close>

text \<open>Each definition below is one commented block of \<open>updateShip\<close>, in source order.\<close>

definition handleAcceleration :: "game \<Rightarrow> game" where
  "handleAcceleration s =
     (if currentCoal s > 0 then
        (if ArrowUp (keys s) then s\<lparr>ship_acceleration := accelerationPower\<rparr>
         else if ArrowDown (keys s) then s\<lparr>ship_acceleration := - accelerationPower\<rparr>
         else if ship_acceleration s > 0
           then s\<lparr>ship_acceleration := max 0 (ship_acceleration s - accelerationDecay)\<rparr>
         else if ship_acceleration s < 0
           then s\<lparr>ship_acceleration := min 0 (ship_acceleration s + accelerationDecay)\<rparr>
         else s)
      else s\<lparr>ship_acceleration := 0\<rparr>)"

definition handleAcceleration_simple :: "game \<Rightarrow> game" where
  "handleAcceleration_simple s =
     (if ArrowUp (keys s) then s\<lparr>ship_acceleration := accelerationPower\<rparr>
      else if ArrowDown (keys s) then s\<lparr>ship_acceleration := - accelerationPower\<rparr>
      else if ship_acceleration s > 0
        then s\<lparr>ship_acceleration := max 0 (ship_acceleration s - accelerationDecay)\<rparr>
      else if ship_acceleration s < 0
        then s\<lparr>ship_acceleration := min 0 (ship_acceleration s + accelerationDecay)\<rparr>
      else s)"

definition clampSpeed :: "real \<Rightarrow> real" where
  "clampSpeed v =
     (if v > maxSpeed then maxSpeed
      else if v < - maxReverseSpeed then - maxReverseSpeed
      else v)"

definition applyAcceleration :: "game \<Rightarrow> game" where
  "applyAcceleration s =
     (if ship_acceleration s \<noteq> 0 \<and> (currentCoal s > 0 \<or> ship_acceleration s < 0)
      then s\<lparr>ship_speed := clampSpeed (ship_speed s + ship_acceleration s)\<rparr>
      else s)"

definition applyAcceleration_simple :: "game \<Rightarrow> game" where
  "applyAcceleration_simple s =
     (if ship_acceleration s \<noteq> 0
      then s\<lparr>ship_speed := clampSpeed (ship_speed s + ship_acceleration s)\<rparr>
      else s)"

definition slowDown :: "game \<Rightarrow> game" where
  "slowDown s =
     (if ship_speed s > 0 then s\<lparr>ship_speed := max 0 (ship_speed s - friction)\<rparr>
      else if ship_speed s < 0 then s\<lparr>ship_speed := min 0 (ship_speed s + friction)\<rparr>
      else s)"

definition applyFriction :: "game \<Rightarrow> game" where
  "applyFriction s =
     (if ship_acceleration s = 0 \<or> currentCoal s \<le> 0 \<or>
         (ship_acceleration s > 0 \<and> ship_speed s \<ge> maxSpeed) \<or>
         (ship_acceleration s < 0 \<and> ship_speed s \<le> - maxReverseSpeed)
      then slowDown s else s)"

definition applyFriction_simple :: "game \<Rightarrow> game" where
  "applyFriction_simple s =
     (if ship_acceleration s = 0 \<or>
         (ship_acceleration s > 0 \<and> ship_speed s \<ge> maxSpeed) \<or>
         (ship_acceleration s < 0 \<and> ship_speed s \<le> - maxReverseSpeed)
      then slowDown s else s)"

definition handleRudder :: "game \<Rightarrow> game" where
  "handleRudder s =
     (if ArrowLeft (keys s)
        then s\<lparr>ship_rudderAngle := max (ship_rudderAngle s - rudderSpeed) (- maxRudderAngle)\<rparr>
      else if ArrowRight (keys s)
        then s\<lparr>ship_rudderAngle := min (ship_rudderAngle s + rudderSpeed) maxRudderAngle\<rparr>
      else if ship_rudderAngle s > 0
        then s\<lparr>ship_rudderAngle := max 0 (ship_rudderAngle s - rudderSpeed)\<rparr>
      else if ship_rudderAngle s < 0
        then s\<lparr>ship_rudderAngle := min 0 (ship_rudderAngle s + rudderSpeed)\<rparr>
      else s)"

definition applyTurning :: "game \<Rightarrow> game" where
  "applyTurning s =
     (let turnEffectiveness = \<bar>ship_speed s\<bar> / maxSpeed;
          rotationDelta = ship_rudderAngle s * turnRate * turnEffectiveness;
          pivotOffset = (pivotPoint - 0.5) * shipLength;
          pivotWorldX = camera_x s + cos (ship_rotation s) * pivotOffset;
          pivotWorldY = camera_y s + sin (ship_rotation s) * pivotOffset;
          rotation' = ship_rotation s + rotationDelta;
          newPivotWorldX = camera_x s + cos rotation' * pivotOffset;
          newPivotWorldY = camera_y s + sin rotation' * pivotOffset
      in s\<lparr>ship_rotation := rotation',
            camera_x := camera_x s + (pivotWorldX - newPivotWorldX),
            camera_y := camera_y s + (pivotWorldY - newPivotWorldY)\<rparr>)"

definition moveCamera :: "game \<Rightarrow> game" where
  "moveCamera s =
     (let moveX = cos (ship_rotation s) * ship_speed s;
          moveY = sin (ship_rotation s) * ship_speed s;
          oldCameraX = camera_x s;
          oldCameraY = camera_y s;
          newCameraX = camera_x s + moveX;
          newCameraY = camera_y s + moveY;
          actualMoveX = newCameraX - oldCameraX;
          actualMoveY = newCameraY - oldCameraY;
          distanceThisFrame = sqrt (actualMoveX * actualMoveX + actualMoveY * actualMoveY)
      in s\<lparr>camera_x := newCameraX, camera_y := newCameraY,
            totalDistance := totalDistance s + distanceThisFrame\<rparr>)"

definition moveCamera_simple :: "game \<Rightarrow> game" where
  "moveCamera_simple s =
     s\<lparr>camera_x := camera_x s + cos (ship_rotation s) * ship_speed s,
       camera_y := camera_y s + sin (ship_rotation s) * ship_speed s\<rparr>"

definition depleteCoal :: "game \<Rightarrow> game" where
  "depleteCoal s =
     (if \<bar>ship_speed s\<bar> > 0 then
        (let speedFactor = \<bar>ship_speed s\<bar> / maxSpeed;
             coalDepletion = depletionRate * speedFactor
         in s\<lparr>currentCoal := max 0 (currentCoal s - coalDepletion)\<rparr>)
      else s)"

definition updateShip :: "real \<Rightarrow> game \<Rightarrow> game" where
  "updateShip deltaTime s =
     depleteCoal (moveCamera (applyTurning (handleRudder
       (applyFriction (applyAcceleration (handleAcceleration s))))))"

definition updateShip_simple :: "real \<Rightarrow> game \<Rightarrow> game" where
  "updateShip_simple deltaTime s =
     moveCamera_simple (applyTurning (handleRudder
       (applyFriction_simple (applyAcceleration_simple (handleAcceleration_simple s)))))"

text \<open>A run of physics updates: before each update the key listeners may have changed the
  held keys, and the loop passes a frame-time factor.\<close>

fun shipTicks :: "(real \<times> keys) list \<Rightarrow> game \<Rightarrow> game" where
  "shipTicks [] s = s"
| "shipTicks ((deltaTime, k) # fs) s = shipTicks fs (updateShip deltaTime (holdKeys k s))"

fun shipTicks_simple :: "(real \<times> keys) list \<Rightarrow> game \<Rightarrow> game" where
  "shipTicks_simple [] s = s"
| "shipTicks_simple ((deltaTime, k) # fs) s =
     shipTicks_simple fs (updateShip_simple deltaTime (holdKeys k s))"

subsection \<open>World generation\<close>

text \<open>The chunk key is the template string \<open>`${chunkX},${chunkY}`\<close>. Chunk indices are
  results of \<open>Math.floor\<close> and \<open>Math.ceil\<close>, printed in decimal (the exponent notation
  JavaScript uses from \<open>1e21\<close> on is not modelled).\<close>

function show_nat :: "nat \<Rightarrow> string" where
  "show_nat n =
     (if n < 10 then [''0123456789'' ! n]
      else show_nat (n div 10) @ [''0123456789'' ! (n mod 10)])"
  by pat_completeness auto
termination
  by (relation "measure id") auto

declare show_nat.simps [simp del]

definition show_int :: "int \<Rightarrow> string" where
  "show_int i = (if i < 0 then CHR ''-'' # show_nat (nat (- i)) else show_nat (nat i))"

definition chunkKey :: "int \<Rightarrow> int \<Rightarrow> string" where
  "chunkKey chunkX chunkY = show_int chunkX @ '','' @ show_int chunkY"

text \<open>The canvas width and height are unsigned integers. With a canvas of area 0 the
  division \<open>chunkArea / screenArea\<close> is \<open>Infinity\<close> in JavaScript, \<open>expectedCount\<close> is
  \<open>Infinity\<close> and the loop \<open>for (i = 0; i < expectedCount; i++)\<close> never ends: \<open>None\<close>.\<close>

definition expectedCount :: "nat \<Rightarrow> nat \<Rightarrow> nat option" where
  "expectedCount width height =
     (let screenArea = real (width * height);
          chunkArea = icebergGridSize * icebergGridSize
      in if screenArea = 0 then None
         else (let screensPerChunk = chunkArea / screenArea
               in Some (nat \<lfloor>screensPerChunk * density\<rfloor>)))"

text \<open>\<open>Math.abs(hash - Math.floor(hash))\<close>, the expression every pseudo-random value
  is made with.\<close>

definition hashFraction :: "real \<Rightarrow> real" where
  "hashFraction hash = \<bar>hash - of_int \<lfloor>hash\<rfloor>\<bar>"

text \<open>One turn of the loop body for index \<open>i\<close>: \<open>None\<close> when the candidate is skipped
  (\<open>continue\<close>), the iceberg that is pushed otherwise.\<close>

definition icebergCandidate :: "int \<Rightarrow> int \<Rightarrow> nat \<Rightarrow> iceberg option" where
  "icebergCandidate chunkX chunkY i =
     (let chunkWorldX = of_int chunkX * icebergGridSize;
          chunkWorldY = of_int chunkY * icebergGridSize;
          seed = chunkX * 1000 + chunkY;
          hash1 = sin (of_int (seed + int i) * 0.1) * 10000;
          hash2 = cos (of_int (seed + int i) * 0.1) * 10000;
          x = chunkWorldX + hashFraction hash1 * icebergGridSize;
          y = chunkWorldY + hashFraction hash2 * icebergGridSize;
          distFromStart = sqrt (x * x + y * y)
      in if distFromStart < startSafeRadius then None
         else
           (let sizeHash = sin (of_int (seed + int i) * 0.15) * 10000;
                size = minSize + hashFraction sizeHash * (maxSize - minSize);
                pointsHash = sin (of_int (seed + int i) * 0.2) * 10000;
                pointCount = \<lfloor>minPoints + hashFraction pointsHash * (maxPoints - minPoints)\<rfloor>
            in Some \<lparr>berg_x = x, berg_y = y, berg_size = size, berg_pointCount = pointCount,
                      berg_seed = seed + int i\<rparr>))"

definition pushCandidate :: "int \<Rightarrow> int \<Rightarrow> nat \<Rightarrow> iceberg list \<Rightarrow> iceberg list" where
  "pushCandidate chunkX chunkY i bergs =
     (case icebergCandidate chunkX chunkY i of None \<Rightarrow> bergs | Some b \<Rightarrow> bergs @ [b])"

text \<open>\<open>generateIcebergsForChunk\<close> after its already-generated guard.\<close>

definition generateChunkBody :: "int \<Rightarrow> int \<Rightarrow> game \<Rightarrow> game option" where
  "generateChunkBody chunkX chunkY s =
     (let s1 = s\<lparr>loadedIcebergChunks := insert (chunkKey chunkX chunkY) (loadedIcebergChunks s)\<rparr>
      in case expectedCount (canvas_width s1) (canvas_height s1) of
           None \<Rightarrow> None
         | Some n \<Rightarrow>
             Some (s1\<lparr>icebergs := fold (pushCandidate chunkX chunkY) [0..<n] (icebergs s1)\<rparr>))"

definition generateIcebergsForChunk :: "int \<Rightarrow> int \<Rightarrow> game \<Rightarrow> game option" where
  "generateIcebergsForChunk chunkX chunkY s =
     (if chunkKey chunkX chunkY \<in> loadedIcebergChunks s then Some s
      else generateChunkBody chunkX chunkY s)"

text \<open>The two nested \<open>for\<close> loops of \<open>ensureIcebergsGenerated\<close>, over the inclusive index
  ranges computed before the loops start.\<close>

primrec generateColumn :: "int \<Rightarrow> int list \<Rightarrow> game \<Rightarrow> game option" where
  "generateColumn chunkX [] s = Some s"
| "generateColumn chunkX (chunkY # ys) s =
     Option.bind (generateIcebergsForChunk chunkX chunkY s) (generateColumn chunkX ys)"

primrec generateColumns :: "int list \<Rightarrow> int list \<Rightarrow> game \<Rightarrow> game option" where
  "generateColumns [] ys s = Some s"
| "generateColumns (chunkX # xs) ys s =
     Option.bind (generateColumn chunkX ys s) (generateColumns xs ys)"

definition minChunkX :: "game \<Rightarrow> int" where
  "minChunkX s = \<lfloor>(camera_x s - real (canvas_width s) / 2) / icebergGridSize\<rfloor>"

definition maxChunkX :: "game \<Rightarrow> int" where
  "maxChunkX s = \<lceil>(camera_x s + real (canvas_width s) / 2) / icebergGridSize\<rceil>"

definition minChunkY :: "game \<Rightarrow> int" where
  "minChunkY s = \<lfloor>(camera_y s - real (canvas_height s) / 2) / icebergGridSize\<rfloor>"

definition maxChunkY :: "game \<Rightarrow> int" where
  "maxChunkY s = \<lceil>(camera_y s + real (canvas_height s) / 2) / icebergGridSize\<rceil>"

definition ensureIcebergsGenerated :: "game \<Rightarrow> game option" where
  "ensureIcebergsGenerated s =
     generateColumns [minChunkX s..maxChunkX s] [minChunkY s..maxChunkY s] s"

subsection \<open>Start port and goal\<close>

text \<open>The successive results of \<open>Math.random()\<close> are a stream of reals; every function that
  draws returns the rest of the stream. The \<open>switch\<close> draws one number in each of its
  four cases and none when no case matches.\<close>

definition placeOnEdge :: "int \<Rightarrow> real \<Rightarrow> place \<Rightarrow> place" where
  "placeOnEdge edge r p =
     (if edge = 0 then
        p\<lparr>place_x := edgeOffset + r * (worldWidth - edgeOffset * 2), place_y := edgeOffset\<rparr>
      else if edge = 1 then
        p\<lparr>place_x := worldWidth - edgeOffset,
          place_y := edgeOffset + r * (worldHeight - edgeOffset * 2)\<rparr>
      else if edge = 2 then
        p\<lparr>place_x := edgeOffset + r * (worldWidth - edgeOffset * 2),
          place_y := worldHeight - edgeOffset\<rparr>
      else if edge = 3 then
        p\<lparr>place_x := edgeOffset, place_y := edgeOffset + r * (worldHeight - edgeOffset * 2)\<rparr>
      else p)"

definition afterSwitch :: "int \<Rightarrow> real stream \<Rightarrow> real stream" where
  "afterSwitch edge rs = (if 0 \<le> edge \<and> edge \<le> 3 then stl rs else rs)"

definition generateStartPort :: "real stream \<Rightarrow> game \<Rightarrow> game \<times> real stream" where
  "generateStartPort rs s =
     (let edge = \<lfloor>shd rs * 4\<rfloor>;
          rs1 = stl rs;
          port = (placeOnEdge edge (shd rs1) (startPort s))\<lparr>generated := True\<rparr>;
          rs2 = afterSwitch edge rs1;
          shipOffset = goalRadius + 50
      in (s\<lparr>startPort := port,
            camera_x := place_x port + (shd rs2 - 0.5) * shipOffset * 0.5,
            camera_y := place_y port + (shd (stl rs2) - 0.5) * shipOffset * 0.5\<rparr>,
          stl (stl rs2)))"

definition startPortEdge :: "game \<Rightarrow> int" where
  "startPortEdge s =
     (if generated (startPort s) then
        (if place_y (startPort s) \<le> edgeOffset + 10 then 0
         else if place_x (startPort s) \<ge> worldWidth - edgeOffset - 10 then 1
         else if place_y (startPort s) \<ge> worldHeight - edgeOffset - 10 then 2
         else if place_x (startPort s) \<le> edgeOffset + 10 then 3
         else - 1)
      else - 1)"

text \<open>The \<open>do ... while\<close> loop that draws an edge until it differs from the start port's.
  It runs forever on a stream that keeps drawing the same edge: \<open>None\<close>.\<close>

partial_function (option) chooseEdge :: "int \<Rightarrow> bool \<Rightarrow> real stream \<Rightarrow> (int \<times> real stream) option"
  where
  "chooseEdge portEdge portGenerated rs =
     (if \<lfloor>shd rs * 4\<rfloor> = portEdge \<and> portGenerated
      then chooseEdge portEdge portGenerated (stl rs)
      else Some (\<lfloor>shd rs * 4\<rfloor>, stl rs))"

definition generateGoal :: "real stream \<Rightarrow> game \<Rightarrow> (game \<times> real stream) option" where
  "generateGoal rs s =
     (case chooseEdge (startPortEdge s) (generated (startPort s)) rs of
        None \<Rightarrow> None
      | Some (edge, rs1) \<Rightarrow>
          Some (s\<lparr>goal := (placeOnEdge edge (shd rs1) (goal s))\<lparr>generated := True\<rparr>\<rparr>,
                afterSwitch edge rs1))"

text \<open>The last statements of the script: place start port and goal, note the start time.\<close>

definition startUp :: "real stream \<Rightarrow> real \<Rightarrow> game \<Rightarrow> (game \<times> real stream) option" where
  "startUp rs now s =
     (case generateStartPort rs s of
        (s1, rs1) \<Rightarrow>
          (case generateGoal rs1 s1 of
             None \<Rightarrow> None
           | Some (s2, rs2) \<Rightarrow> Some (s2\<lparr>gameStartTime := now\<rparr>, rs2)))"

subsection \<open>Encounters\<close>

definition shipRadius :: real where "shipRadius = shipWidth / 2"
definition maxCheckDistance :: real where "maxCheckDistance = shipLength + maxSize + 50"

text \<open>The loop of \<open>checkCollisions\<close> over the icebergs: \<open>True\<close> when it reaches the branch
  that ends the game and returns, \<open>False\<close> when it runs to the end of the list.\<close>

fun hitsIceberg :: "real \<Rightarrow> real \<Rightarrow> iceberg list \<Rightarrow> bool" where
  "hitsIceberg shipWorldX shipWorldY [] = False"
| "hitsIceberg shipWorldX shipWorldY (b # bergs) =
     (let dx = shipWorldX - berg_x b;
          dy = shipWorldY - berg_y b;
          distanceSquared = dx * dx + dy * dy
      in if distanceSquared > maxCheckDistance * maxCheckDistance
           then hitsIceberg shipWorldX shipWorldY bergs
         else if sqrt distanceSquared < shipRadius + berg_size b then True
         else hitsIceberg shipWorldX shipWorldY bergs)"

definition checkCollisions :: "game \<Rightarrow> game" where
  "checkCollisions s =
     (if gameOver s \<or> gameWon s then s
      else if hitsIceberg (camera_x s) (camera_y s) (icebergs s)
        then s\<lparr>gameOver := True, gameRunning := False\<rparr>
      else s)"

definition checkCollisions_simple :: "game \<Rightarrow> game" where
  "checkCollisions_simple s =
     (if gameOver s then s
      else if hitsIceberg (camera_x s) (camera_y s) (icebergs s)
        then s\<lparr>gameOver := True, gameRunning := False\<rparr>
      else s)"

definition checkGoalReached :: "real \<Rightarrow> game \<Rightarrow> game" where
  "checkGoalReached now s =
     (if gameOver s \<or> gameWon s \<or> \<not> generated (goal s) then s
      else
        (let dx = camera_x s - place_x (goal s);
             dy = camera_y s - place_y (goal s);
             distance = sqrt (dx * dx + dy * dy)
         in if distance < goalRadius
            then s\<lparr>gameWon := True, gameRunning := False, winTime := now\<rparr>
            else s))"

subsection \<open>Session control and the game loop\<close>

text \<open>Of the drawing functions only those that assign to the state are modelled:
  \<open>drawShip\<close> sets the screen position of the ship, the two overlays store the bounds of
  the restart button.\<close>

definition drawShip :: "game \<Rightarrow> game" where
  "drawShip s =
     s\<lparr>ship_screenX := real (canvas_width s) / 2, ship_screenY := real (canvas_height s) / 2\<rparr>"

definition restartButton :: "real \<Rightarrow> game \<Rightarrow> button" where
  "restartButton below s =
     (let buttonX = real (canvas_width s) / 2;
          buttonY = real (canvas_height s) / 2 + below;
          buttonWidth = 200;
          buttonHeight = 50
      in \<lparr>button_x = buttonX - buttonWidth / 2, button_y = buttonY - buttonHeight / 2,
          button_width = buttonWidth, button_height = buttonHeight\<rparr>)"

definition drawWinScreen :: "game \<Rightarrow> game" where
  "drawWinScreen s = (if \<not> gameWon s then s else s\<lparr>gameOverButton := Some (restartButton 60 s)\<rparr>)"

definition drawGameOver :: "game \<Rightarrow> game" where
  "drawGameOver s = (if \<not> gameOver s then s else s\<lparr>gameOverButton := Some (restartButton 60 s)\<rparr>)"

definition drawGameOver_simple :: "game \<Rightarrow> game" where
  "drawGameOver_simple s =
     (if \<not> gameOver s then s else s\<lparr>gameOverButton := Some (restartButton 40 s)\<rparr>)"

text \<open>One animation frame. \<open>currentTime\<close> is the timestamp the browser passes, \<open>now\<close> the
  value \<open>performance.now()\<close> returns during the frame.\<close>

definition gameLoop :: "real \<Rightarrow> real \<Rightarrow> game \<Rightarrow> game option" where
  "gameLoop currentTime now s =
     (if \<not> gameRunning s \<and> \<not> gameOver s \<and> \<not> gameWon s then Some s
      else
        (let deltaTime = min ((currentTime - lastTime s) / 16.67) 2;
             s1 = s\<lparr>lastTime := currentTime, animationTime := animationTime s + 0.5\<rparr>
         in Option.bind
              (if \<not> gameOver s1 \<and> \<not> gameWon s1
               then Option.bind (ensureIcebergsGenerated (updateShip deltaTime s1))
                      (\<lambda>s2. Some (checkGoalReached now (checkCollisions s2)))
               else Some s1)
              (\<lambda>s3. Some (drawGameOver (drawWinScreen (drawShip s3))))))"

definition gameLoop_simple :: "real \<Rightarrow> game \<Rightarrow> game option" where
  "gameLoop_simple currentTime s =
     (if \<not> gameRunning s \<and> \<not> gameOver s then Some s
      else
        (let deltaTime = min ((currentTime - lastTime s) / 16.67) 2;
             s1 = s\<lparr>lastTime := currentTime, animationTime := animationTime s + 0.5\<rparr>
         in Option.bind
              (if \<not> gameOver s1
               then Option.bind (ensureIcebergsGenerated (updateShip_simple deltaTime s1))
                      (\<lambda>s2. Some (checkCollisions_simple s2))
               else Some s1)
              (\<lambda>s3. Some (drawGameOver_simple (drawShip s3)))))"

definition restartGame :: "real stream \<Rightarrow> real \<Rightarrow> real \<Rightarrow> game \<Rightarrow> (game \<times> real stream) option"
  where
  "restartGame rs now now' s =
     (let s1 = s\<lparr>gameOver := False, gameWon := False, gameRunning := True, keys := noKeys,
                 ship_rotation := - pi / 2, ship_speed := 0, ship_acceleration := 0,
                 ship_rudderAngle := 0,
                 startPort := (startPort s)\<lparr>generated := False\<rparr>,
                 goal := (goal s)\<lparr>generated := False\<rparr>,
                 icebergs := [], loadedIcebergChunks := {}\<rparr>
      in case generateStartPort rs s1 of
           (s2, rs2) \<Rightarrow>
             (case generateGoal rs2 s2 of
                None \<Rightarrow> None
              | Some (s3, rs3) \<Rightarrow>
                  Some (s3\<lparr>animationTime := 0, totalDistance := 0, currentCoal := maxCoal,
                           gameStartTime := now, winTime := 0, lastTime := now'\<rparr>, rs3)))"

definition restartGame_simple :: "real \<Rightarrow> game \<Rightarrow> game" where
  "restartGame_simple now s =
     s\<lparr>gameOver := False, gameRunning := True, keys := noKeys,
       ship_rotation := - pi / 2, ship_speed := 0, ship_acceleration := 0,
       ship_rudderAngle := 0, camera_x := 0, camera_y := 0,
       icebergs := [], loadedIcebergChunks := {}, animationTime := 0, lastTime := now\<rparr>"

text \<open>What happens between two frames and in a frame: the listeners set the held keys and
  the canvas size, then the loop runs once.\<close>

record frame =
  frame_time :: real
  frame_now :: real
  frame_keys :: keys
  frame_innerWidth :: nat
  frame_innerHeight :: nat

definition resizeCanvas :: "nat \<Rightarrow> nat \<Rightarrow> game \<Rightarrow> game" where
  "resizeCanvas innerWidth innerHeight s =
     s\<lparr>canvas_width := innerWidth, canvas_height := innerHeight\<rparr>"

definition frameStep :: "frame \<Rightarrow> game \<Rightarrow> game option" where
  "frameStep f s =
     gameLoop (frame_time f) (frame_now f)
       (resizeCanvas (frame_innerWidth f) (frame_innerHeight f) (holdKeys (frame_keys f) s))"

definition frameStep_simple :: "frame \<Rightarrow> game \<Rightarrow> game option" where
  "frameStep_simple f s =
     gameLoop_simple (frame_time f)
       (resizeCanvas (frame_innerWidth f) (frame_innerHeight f) (holdKeys (frame_keys f) s))"

primrec frames :: "frame list \<Rightarrow> game \<Rightarrow> game option" where
  "frames [] s = Some s"
| "frames (f # fs) s = Option.bind (frameStep f s) (frames fs)"

primrec frames_simple :: "frame list \<Rightarrow> game \<Rightarrow> game option" where
  "frames_simple [] s = Some s"
| "frames_simple (f # fs) s = Option.bind (frameStep_simple f s) (frames_simple fs)"

subsection \<open>Facts about the physics step\<close>

lemma handleRudder_fields [simp]:
  "ship_speed (handleRudder s) = ship_speed s"
  "ship_acceleration (handleRudder s) = ship_acceleration s"
  "currentCoal (handleRudder s) = currentCoal s"
  by (simp_all add: handleRudder_def)

lemma applyTurning_fields [simp]:
  "ship_speed (applyTurning s) = ship_speed s"
  "ship_acceleration (applyTurning s) = ship_acceleration s"
  "currentCoal (applyTurning s) = currentCoal s"
  by (simp_all add: applyTurning_def Let_def)

lemma moveCamera_fields [simp]:
  "ship_speed (moveCamera s) = ship_speed s"
  "ship_acceleration (moveCamera s) = ship_acceleration s"
  "currentCoal (moveCamera s) = currentCoal s"
  by (simp_all add: moveCamera_def Let_def)

lemma moveCamera_simple_fields [simp]:
  "ship_speed (moveCamera_simple s) = ship_speed s"
  "ship_acceleration (moveCamera_simple s) = ship_acceleration s"
  by (simp_all add: moveCamera_simple_def)

lemma depleteCoal_fields [simp]:
  "ship_speed (depleteCoal s) = ship_speed s"
  "ship_acceleration (depleteCoal s) = ship_acceleration s"
  by (simp_all add: depleteCoal_def Let_def)

lemma slowDown_fields [simp]:
  "ship_acceleration (slowDown s) = ship_acceleration s"
  "currentCoal (slowDown s) = currentCoal s"
  by (simp_all add: slowDown_def)

lemma applyFriction_fields [simp]:
  "ship_acceleration (applyFriction s) = ship_acceleration s"
  "currentCoal (applyFriction s) = currentCoal s"
  by (simp_all add: applyFriction_def)

lemma applyAcceleration_fields [simp]:
  "ship_acceleration (applyAcceleration s) = ship_acceleration s"
  "currentCoal (applyAcceleration s) = currentCoal s"
  by (simp_all add: applyAcceleration_def)

lemma handleAcceleration_coal [simp]: "currentCoal (handleAcceleration s) = currentCoal s"
  by (simp add: handleAcceleration_def)

lemma updateShip_speed:
  "ship_speed (updateShip deltaTime s) =
     ship_speed (applyFriction (applyAcceleration (handleAcceleration s)))"
  by (simp add: updateShip_def)

lemma updateShip_simple_speed:
  "ship_speed (updateShip_simple deltaTime s) =
     ship_speed (applyFriction_simple (applyAcceleration_simple (handleAcceleration_simple s)))"
  by (simp add: updateShip_simple_def)

definition speedInLimits :: "game \<Rightarrow> bool" where
  "speedInLimits s = (- maxReverseSpeed \<le> ship_speed s \<and> ship_speed s \<le> maxSpeed)"

lemma clampSpeed_limits: "- maxReverseSpeed \<le> clampSpeed v \<and> clampSpeed v \<le> maxSpeed"
  by (simp add: clampSpeed_def maxSpeed_def maxReverseSpeed_def)

lemma slowDown_limits: "speedInLimits s \<Longrightarrow> speedInLimits (slowDown s)"
  by (auto simp: speedInLimits_def slowDown_def maxSpeed_def maxReverseSpeed_def friction_def
      max_def min_def)

lemma handleAcceleration_speed [simp]: "ship_speed (handleAcceleration s) = ship_speed s"
  by (simp add: handleAcceleration_def)

lemma handleAcceleration_simple_speed [simp]:
  "ship_speed (handleAcceleration_simple s) = ship_speed s"
  by (simp add: handleAcceleration_simple_def)

lemma applyAcceleration_limits:
  "speedInLimits s \<Longrightarrow> speedInLimits (applyAcceleration s)"
  using clampSpeed_limits by (simp add: speedInLimits_def applyAcceleration_def)

lemma applyAcceleration_simple_limits:
  "speedInLimits s \<Longrightarrow> speedInLimits (applyAcceleration_simple s)"
  using clampSpeed_limits by (simp add: speedInLimits_def applyAcceleration_simple_def)

lemma applyFriction_limits: "speedInLimits s \<Longrightarrow> speedInLimits (applyFriction s)"
  using slowDown_limits by (simp add: applyFriction_def)

lemma applyFriction_simple_limits:
  "speedInLimits s \<Longrightarrow> speedInLimits (applyFriction_simple s)"
  using slowDown_limits by (simp add: applyFriction_simple_def)

lemma updateShip_limits: "speedInLimits s \<Longrightarrow> speedInLimits (updateShip deltaTime s)"
proof -
  assume "speedInLimits s"
  then have "speedInLimits (handleAcceleration s)"
    by (simp add: speedInLimits_def)
  then have "speedInLimits (applyFriction (applyAcceleration (handleAcceleration s)))"
    by (intro applyFriction_limits applyAcceleration_limits)
  then show ?thesis
    by (simp add: speedInLimits_def updateShip_speed)
qed

lemma updateShip_simple_limits:
  "speedInLimits s \<Longrightarrow> speedInLimits (updateShip_simple deltaTime s)"
proof -
  assume "speedInLimits s"
  then have "speedInLimits (handleAcceleration_simple s)"
    by (simp add: speedInLimits_def)
  then have "speedInLimits
      (applyFriction_simple (applyAcceleration_simple (handleAcceleration_simple s)))"
    by (intro applyFriction_simple_limits applyAcceleration_simple_limits)
  then show ?thesis
    by (simp add: speedInLimits_def updateShip_simple_speed)
qed

lemma holdKeys_limits [simp]: "speedInLimits (holdKeys k s) = speedInLimits s"
  by (simp add: speedInLimits_def holdKeys_def)

lemma shipTicks_limits: "speedInLimits s \<Longrightarrow> speedInLimits (shipTicks fs s)"
  by (induction fs s rule: shipTicks.induct) (simp_all add: updateShip_limits)

lemma shipTicks_simple_limits: "speedInLimits s \<Longrightarrow> speedInLimits (shipTicks_simple fs s)"
  by (induction fs s rule: shipTicks_simple.induct) (simp_all add: updateShip_simple_limits)

text \<open>
  C1. Starting from a state whose speed is within the limits (the initial state has speed
  0), after every run of physics updates, whatever keys are held at each tick and whatever
  frame-time factors are passed, the speed lies in \<open>[- maxReverseSpeed, maxSpeed]\<close>,
  that is in \<open>[-0.8, 3.5]\<close>; in both variants.
\<close>

theorem speed_stays_within_limits:
  assumes "- maxReverseSpeed \<le> ship_speed s" and "ship_speed s \<le> maxSpeed"
  shows "- maxReverseSpeed \<le> ship_speed (shipTicks fs s) \<and>
         ship_speed (shipTicks fs s) \<le> maxSpeed \<and>
         - maxReverseSpeed \<le> ship_speed (shipTicks_simple fs s) \<and>
         ship_speed (shipTicks_simple fs s) \<le> maxSpeed \<and>
         maxSpeed = 3.5 \<and> maxReverseSpeed = 0.8"
proof -
  from assms have "speedInLimits s"
    by (simp add: speedInLimits_def)
  then have "speedInLimits (shipTicks fs s)" and "speedInLimits (shipTicks_simple fs s)"
    by (rule shipTicks_limits, rule shipTicks_simple_limits)
  then show ?thesis
    by (simp add: speedInLimits_def maxSpeed_def maxReverseSpeed_def)
qed

theorem speed_stays_within_limits_witness:
  "- maxReverseSpeed \<le> ship_speed (initialGame 1280 720 0) \<and>
   ship_speed (initialGame 1280 720 0) \<le> maxSpeed \<and>
   - maxReverseSpeed \<le> ship_speed (shipTicks [(1, noKeys\<lparr>ArrowUp := True\<rparr>)] (initialGame 1280 720 0)) \<and>
   ship_speed (shipTicks [(1, noKeys\<lparr>ArrowUp := True\<rparr>)] (initialGame 1280 720 0)) \<le> maxSpeed"
  using speed_stays_within_limits [of "initialGame 1280 720 0" "[(1, noKeys\<lparr>ArrowUp := True\<rparr>)]"]
  by (simp add: initialGame_def maxSpeed_def maxReverseSpeed_def)

text \<open>
  C10. The physics step does not depend on its \<open>deltaTime\<close> argument: for the same prior
  state (ship, camera, coal, held keys) any two frame-time factors give the same resulting
  state; in both variants.
\<close>

theorem updateShip_ignores_deltaTime:
  "updateShip deltaTime1 s = updateShip deltaTime2 s \<and>
   updateShip_simple deltaTime1 s = updateShip_simple deltaTime2 s"
  by (simp add: updateShip_def updateShip_simple_def)

subsection \<open>Out of coal\<close>

lemma abs_slowDown: "\<bar>ship_speed (slowDown s)\<bar> = max 0 (\<bar>ship_speed s\<bar> - friction)"
  by (simp add: slowDown_def friction_def max_def min_def)

lemma slowDown_sign:
  "(0 \<le> ship_speed s \<longrightarrow> 0 \<le> ship_speed (slowDown s)) \<and>
   (ship_speed s \<le> 0 \<longrightarrow> ship_speed (slowDown s) \<le> 0)"
  by (simp add: slowDown_def)

lemma updateShip_no_coal_speed:
  "currentCoal s \<le> 0 \<Longrightarrow> ship_speed (updateShip deltaTime s) = ship_speed (slowDown s)"
proof -
  assume coal: "currentCoal s \<le> 0"
  then have h: "handleAcceleration s = s\<lparr>ship_acceleration := 0\<rparr>"
    by (simp add: handleAcceleration_def)
  have a: "applyAcceleration (handleAcceleration s) = s\<lparr>ship_acceleration := 0\<rparr>"
    unfolding h by (simp add: applyAcceleration_def)
  have "ship_speed (applyFriction (s\<lparr>ship_acceleration := 0\<rparr>)) = ship_speed (slowDown s)"
    by (simp add: applyFriction_def slowDown_def)
  then show ?thesis
    by (simp add: updateShip_speed a)
qed

lemma updateShip_acceleration:
  "ship_acceleration (updateShip deltaTime s) = ship_acceleration (handleAcceleration s)"
  by (simp add: updateShip_def)

lemma updateShip_coal:
  "currentCoal (updateShip deltaTime s) =
     (if \<bar>ship_speed (updateShip deltaTime s)\<bar> > 0
      then max 0 (currentCoal s - depletionRate * (\<bar>ship_speed (updateShip deltaTime s)\<bar> / maxSpeed))
      else currentCoal s)"
proof -
  let ?m = "moveCamera (applyTurning (handleRudder
       (applyFriction (applyAcceleration (handleAcceleration s)))))"
  have coal: "currentCoal ?m = currentCoal s"
    by simp
  have speed: "ship_speed (updateShip deltaTime s) = ship_speed ?m"
    by (simp add: updateShip_def)
  have "currentCoal (depleteCoal ?m) =
      (if \<bar>ship_speed ?m\<bar> > 0
       then max 0 (currentCoal ?m - depletionRate * (\<bar>ship_speed ?m\<bar> / maxSpeed))
       else currentCoal ?m)"
    by (simp add: depleteCoal_def Let_def)
  then show ?thesis
    unfolding speed coal by (simp add: updateShip_def)
qed

lemma updateShip_no_coal_stays: "currentCoal s = 0 \<Longrightarrow> currentCoal (updateShip deltaTime s) = 0"
  by (simp add: updateShip_coal depletionRate_def maxSpeed_def max_def)

lemma holdKeys_fields [simp]:
  "ship_speed (holdKeys k s) = ship_speed s"
  "currentCoal (holdKeys k s) = currentCoal s"
  "ship_acceleration (holdKeys k s) = ship_acceleration s"
  by (simp_all add: holdKeys_def)

lemma shipTicks_no_coal:
  "currentCoal s = 0 \<Longrightarrow>
   currentCoal (shipTicks fs s) = 0 \<and>
   \<bar>ship_speed (shipTicks fs s)\<bar> = max 0 (\<bar>ship_speed s\<bar> - real (length fs) * friction)"
proof (induction fs s rule: shipTicks.induct)
  case (1 s)
  then show ?case by simp
next
  case (2 deltaTime k fs s)
  let ?t = "updateShip deltaTime (holdKeys k s)"
  from "2.prems" have coal: "currentCoal ?t = 0"
    by (simp add: updateShip_no_coal_stays)
  from "2.prems" have "ship_speed ?t = ship_speed (slowDown (holdKeys k s))"
    by (simp add: updateShip_no_coal_speed)
  then have speed: "\<bar>ship_speed ?t\<bar> = max 0 (\<bar>ship_speed s\<bar> - friction)"
    by (simp add: abs_slowDown)
  from "2.IH" [OF coal] show ?case
    unfolding speed by (simp add: friction_def max_def algebra_simps)
qed

text \<open>
  C5. In the extended variant, once the coal level is 0, every physics update, whatever
  keys are held, sets the acceleration to 0, leaves the coal at 0 and moves the speed
  toward 0 by the friction constant without crossing 0: the magnitude of the speed never
  increases, it strictly decreases while the ship still moves, and after \<open>n\<close> updates it is
  \<open>max 0 (\<bar>speed\<bar> - n * friction)\<close>, so the ship stops and stays stopped.
\<close>

theorem no_coal_speed_decays:
  assumes "currentCoal s = 0"
  shows "ship_acceleration (updateShip deltaTime (holdKeys k s)) = 0 \<and>
         currentCoal (updateShip deltaTime (holdKeys k s)) = 0 \<and>
         \<bar>ship_speed (updateShip deltaTime (holdKeys k s))\<bar> \<le> \<bar>ship_speed s\<bar> \<and>
         (ship_speed s \<noteq> 0 \<longrightarrow>
            \<bar>ship_speed (updateShip deltaTime (holdKeys k s))\<bar> < \<bar>ship_speed s\<bar>) \<and>
         (0 \<le> ship_speed s \<longrightarrow> 0 \<le> ship_speed (updateShip deltaTime (holdKeys k s))) \<and>
         (ship_speed s \<le> 0 \<longrightarrow> ship_speed (updateShip deltaTime (holdKeys k s)) \<le> 0) \<and>
         currentCoal (shipTicks fs s) = 0 \<and>
         \<bar>ship_speed (shipTicks fs s)\<bar> = max 0 (\<bar>ship_speed s\<bar> - real (length fs) * friction)"
proof -
  let ?h = "holdKeys k s"
  let ?t = "updateShip deltaTime ?h"
  from assms have coal: "currentCoal ?h \<le> 0" "currentCoal ?h = 0"
    by simp_all
  have acc: "ship_acceleration ?t = 0"
    using coal(1) by (simp add: updateShip_acceleration handleAcceleration_def)
  have speed: "ship_speed ?t = ship_speed (slowDown ?h)"
    using coal(1) by (rule updateShip_no_coal_speed)
  have mag: "\<bar>ship_speed ?t\<bar> = max 0 (\<bar>ship_speed s\<bar> - friction)"
    unfolding speed by (simp add: abs_slowDown)
  have le: "\<bar>ship_speed ?t\<bar> \<le> \<bar>ship_speed s\<bar>"
    unfolding mag by (simp add: friction_def)
  have less: "ship_speed s \<noteq> 0 \<longrightarrow> \<bar>ship_speed ?t\<bar> < \<bar>ship_speed s\<bar>"
    unfolding mag by (simp add: friction_def)
  have sign: "(0 \<le> ship_speed s \<longrightarrow> 0 \<le> ship_speed ?t) \<and> (ship_speed s \<le> 0 \<longrightarrow> ship_speed ?t \<le> 0)"
    unfolding speed using slowDown_sign [of ?h] by simp
  note stay = updateShip_no_coal_stays [OF coal(2), of deltaTime]
  note run = shipTicks_no_coal [OF assms, of fs]
  from acc stay le less sign run show ?thesis
    by - (elim conjE, intro conjI; assumption)
qed

theorem no_coal_speed_decays_witness:
  "currentCoal ((initialGame 1280 720 0)\<lparr>currentCoal := 0, ship_speed := 1\<rparr>) = 0 \<and>
   \<bar>ship_speed (updateShip 1 (holdKeys (noKeys\<lparr>ArrowUp := True\<rparr>)
        ((initialGame 1280 720 0)\<lparr>currentCoal := 0, ship_speed := 1\<rparr>)))\<bar> < 1"
proof -
  let ?s = "(initialGame 1280 720 0)\<lparr>currentCoal := 0, ship_speed := 1\<rparr>"
  have coal: "currentCoal ?s = 0" and speed: "ship_speed ?s = 1"
    by simp_all
  from no_coal_speed_decays [OF coal, of 1 "noKeys\<lparr>ArrowUp := True\<rparr>" "[]"]
  have "ship_speed ?s \<noteq> 0 \<longrightarrow>
      \<bar>ship_speed (updateShip 1 (holdKeys (noKeys\<lparr>ArrowUp := True\<rparr>) ?s))\<bar> < \<bar>ship_speed ?s\<bar>"
    by (elim conjE)
  then have "\<bar>ship_speed (updateShip 1 (holdKeys (noKeys\<lparr>ArrowUp := True\<rparr>) ?s))\<bar> < 1"
    by (simp only: speed) simp
  with coal show ?thesis
    by (intro conjI)
qed

subsection \<open>Terminal states\<close>

definition worldOf ::
  "game \<Rightarrow> real \<times> real \<times> real \<times> real \<times> real \<times> real \<times> real \<times> iceberg list" where
  "worldOf s =
     (camera_x s, camera_y s, ship_rotation s, ship_speed s, ship_acceleration s,
      ship_rudderAngle s, currentCoal s, icebergs s)"

lemma listeners_worldOf [simp]:
  "worldOf (holdKeys k s) = worldOf s"
  "worldOf (resizeCanvas w h s) = worldOf s"
  "gameOver (holdKeys k s) = gameOver s"
  "gameWon (holdKeys k s) = gameWon s"
  "gameOver (resizeCanvas w h s) = gameOver s"
  "gameWon (resizeCanvas w h s) = gameWon s"
  by (simp_all add: worldOf_def holdKeys_def resizeCanvas_def)

lemma draw_worldOf [simp]:
  "worldOf (drawShip s) = worldOf s"
  "worldOf (drawWinScreen s) = worldOf s"
  "worldOf (drawGameOver s) = worldOf s"
  "worldOf (drawGameOver_simple s) = worldOf s"
  by (simp_all add: worldOf_def drawShip_def drawWinScreen_def drawGameOver_def
      drawGameOver_simple_def)

lemma draw_flags [simp]:
  "gameOver (drawShip s) = gameOver s"
  "gameWon (drawShip s) = gameWon s"
  "gameOver (drawWinScreen s) = gameOver s"
  "gameWon (drawWinScreen s) = gameWon s"
  "gameOver (drawGameOver s) = gameOver s"
  "gameWon (drawGameOver s) = gameWon s"
  "gameOver (drawGameOver_simple s) = gameOver s"
  by (simp_all add: drawShip_def drawWinScreen_def drawGameOver_def drawGameOver_simple_def)

lemma clock_worldOf [simp]:
  "worldOf (s\<lparr>lastTime := a, animationTime := b\<rparr>) = worldOf s"
  by (simp add: worldOf_def)

lemma gameLoop_terminal:
  assumes "gameOver s \<or> gameWon s"
  shows "gameLoop currentTime now s =
    Some (drawGameOver (drawWinScreen (drawShip
      (s\<lparr>lastTime := currentTime, animationTime := animationTime s + 0.5\<rparr>))))"
  using assms by (auto simp: gameLoop_def Let_def)

lemma gameLoop_simple_terminal:
  assumes "gameOver s"
  shows "gameLoop_simple currentTime s =
    Some (drawGameOver_simple (drawShip
      (s\<lparr>lastTime := currentTime, animationTime := animationTime s + 0.5\<rparr>)))"
  using assms by (simp add: gameLoop_simple_def Let_def)

lemma frameStep_terminal:
  assumes "gameOver s \<or> gameWon s"
  shows "\<exists>t. frameStep f s = Some t \<and> worldOf t = worldOf s \<and>
    gameOver t = gameOver s \<and> gameWon t = gameWon s"
proof -
  let ?s = "resizeCanvas (frame_innerWidth f) (frame_innerHeight f) (holdKeys (frame_keys f) s)"
  from assms have "gameOver ?s \<or> gameWon ?s"
    by simp
  then have "frameStep f s = Some (drawGameOver (drawWinScreen (drawShip
      (?s\<lparr>lastTime := frame_time f, animationTime := animationTime ?s + 0.5\<rparr>))))"
    unfolding frameStep_def by (rule gameLoop_terminal)
  moreover have "worldOf (?s\<lparr>lastTime := frame_time f, animationTime := animationTime ?s + 0.5\<rparr>)
      = worldOf s"
    by (simp add: worldOf_def holdKeys_def resizeCanvas_def)
  moreover have "gameOver (?s\<lparr>lastTime := frame_time f, animationTime := animationTime ?s + 0.5\<rparr>)
      = gameOver s"
    "gameWon (?s\<lparr>lastTime := frame_time f, animationTime := animationTime ?s + 0.5\<rparr>)
      = gameWon s"
    by (simp_all add: holdKeys_def resizeCanvas_def)
  ultimately show ?thesis
    by simp
qed

lemma frameStep_simple_terminal:
  assumes "gameOver s"
  shows "\<exists>t. frameStep_simple f s = Some t \<and> worldOf t = worldOf s \<and> gameOver t"
proof -
  let ?s = "resizeCanvas (frame_innerWidth f) (frame_innerHeight f) (holdKeys (frame_keys f) s)"
  from assms have "gameOver ?s"
    by simp
  then have "frameStep_simple f s = Some (drawGameOver_simple (drawShip
      (?s\<lparr>lastTime := frame_time f, animationTime := animationTime ?s + 0.5\<rparr>)))"
    unfolding frameStep_simple_def by (rule gameLoop_simple_terminal)
  moreover have "worldOf (?s\<lparr>lastTime := frame_time f, animationTime := animationTime ?s + 0.5\<rparr>)
      = worldOf s"
    by (simp add: worldOf_def holdKeys_def resizeCanvas_def)
  moreover have "gameOver (?s\<lparr>lastTime := frame_time f, animationTime := animationTime ?s + 0.5\<rparr>)"
    using assms by (simp add: holdKeys_def resizeCanvas_def)
  ultimately show ?thesis
    by simp
qed

lemma frames_terminal:
  "gameOver s \<or> gameWon s \<Longrightarrow>
   \<exists>t. frames fs s = Some t \<and> worldOf t = worldOf s \<and>
     gameOver t = gameOver s \<and> gameWon t = gameWon s"
proof (induction fs arbitrary: s)
  case Nil
  then show ?case by simp
next
  case (Cons f fs)
  from frameStep_terminal [OF Cons.prems, of f] obtain t1 where
    t1: "frameStep f s = Some t1" "worldOf t1 = worldOf s"
    "gameOver t1 = gameOver s" "gameWon t1 = gameWon s"
    by blast
  with Cons.prems have "gameOver t1 \<or> gameWon t1"
    by simp
  from Cons.IH [OF this] t1 show ?case
    by simp
qed

lemma frames_simple_terminal:
  "gameOver s \<Longrightarrow> \<exists>t. frames_simple fs s = Some t \<and> worldOf t = worldOf s \<and> gameOver t"
proof (induction fs arbitrary: s)
  case Nil
  then show ?case by simp
next
  case (Cons f fs)
  from frameStep_simple_terminal [OF Cons.prems, of f] obtain t1 where
    t1: "frameStep_simple f s = Some t1" "worldOf t1 = worldOf s" "gameOver t1"
    by blast
  from Cons.IH [OF t1(3)] t1 show ?case
    by simp
qed

text \<open>
  C8. Once the game is over or won, every further run of frames, whatever the timestamps,
  held keys and window sizes, returns and leaves the camera position, the heading, speed,
  acceleration and rudder angle of the ship, the coal level and the iceberg list as they
  were, and the state stays terminal; in the simple variant the same holds once the game
  is over. Only a restart leaves the terminal state.
\<close>

theorem terminal_state_is_frozen:
  assumes "gameOver s \<or> gameWon s"
  shows "(\<exists>t. frames fs s = Some t \<and> worldOf t = worldOf s \<and>
            gameOver t = gameOver s \<and> gameWon t = gameWon s) \<and>
         (\<exists>t. gameLoop currentTime now s = Some t \<and> worldOf t = worldOf s) \<and>
         (gameOver s \<longrightarrow>
            (\<exists>t. frames_simple fs s = Some t \<and> worldOf t = worldOf s \<and> gameOver t) \<and>
            (\<exists>t. gameLoop_simple currentTime s = Some t \<and> worldOf t = worldOf s))"
proof (intro conjI impI)
  show "\<exists>t. frames fs s = Some t \<and> worldOf t = worldOf s \<and>
      gameOver t = gameOver s \<and> gameWon t = gameWon s"
    using assms by (rule frames_terminal)
  show "\<exists>t. gameLoop currentTime now s = Some t \<and> worldOf t = worldOf s"
    unfolding gameLoop_terminal [OF assms] by simp
  show "\<exists>t. frames_simple fs s = Some t \<and> worldOf t = worldOf s \<and> gameOver t"
    if "gameOver s" using that by (rule frames_simple_terminal)
  show "\<exists>t. gameLoop_simple currentTime s = Some t \<and> worldOf t = worldOf s"
    if "gameOver s" unfolding gameLoop_simple_terminal [OF that] by simp
qed

theorem terminal_state_is_frozen_witness:
  "(gameOver ((initialGame 1280 720 0)\<lparr>gameOver := True, gameRunning := False\<rparr>) \<or>
    gameWon ((initialGame 1280 720 0)\<lparr>gameOver := True, gameRunning := False\<rparr>)) \<and>
   (\<exists>t. frames [\<lparr>frame_time = 16, frame_now = 17, frame_keys = noKeys\<lparr>ArrowUp := True\<rparr>,
                   frame_innerWidth = 1280, frame_innerHeight = 720\<rparr>]
            ((initialGame 1280 720 0)\<lparr>gameOver := True, gameRunning := False\<rparr>) = Some t \<and>
        worldOf t = worldOf ((initialGame 1280 720 0)\<lparr>gameOver := True, gameRunning := False\<rparr>) \<and>
        gameOver t = gameOver ((initialGame 1280 720 0)\<lparr>gameOver := True, gameRunning := False\<rparr>) \<and>
        gameWon t = gameWon ((initialGame 1280 720 0)\<lparr>gameOver := True, gameRunning := False\<rparr>))"
proof -
  let ?s = "(initialGame 1280 720 0)\<lparr>gameOver := True, gameRunning := False\<rparr>"
  have terminal: "gameOver ?s \<or> gameWon ?s"
    by simp
  note frozen = terminal_state_is_frozen [OF terminal, where
      fs = "[\<lparr>frame_time = 16, frame_now = 17, frame_keys = noKeys\<lparr>ArrowUp := True\<rparr>,
              frame_innerWidth = 1280, frame_innerHeight = 720\<rparr>]", THEN conjunct1]
  from terminal frozen show ?thesis
    by (rule conjI)
qed

end
